theory Spec2Isabelle
  imports Complex_Main
begin

section \<open>Data model (domain.py)\<close>

text \<open>
  The two enumerations of domain.py, constructor for constructor.
\<close>

datatype BuildingType = HOUSE | SCHOOL | PHARMACY | HOSPITAL | SHOP | OFFICE

datatype ZoneType = RESIDENTIAL | COMMERCIAL | MIXED | INDUSTRIAL | RESTRICTED

text \<open>
  Decoded JSON, as \<^verbatim>\<open>json.load\<close> and \<^verbatim>\<open>request.get_json\<close> hand it to the program. A
  dictionary is an association list read with \<^const>\<open>map_of\<close>. Python floats are modelled
  as real numbers throughout: rounding, infinities and NaN are outside the model.
\<close>

datatype json =
    JNull
  | JBool bool
  | JInt int
  | JFloat real
  | JStr string
  | JList "json list"
  | JDict "(string \<times> json) list"

text \<open>
  The dataclasses. Field names carry a prefix where the plain name would collide
  with another record's field or with a constant of HOL (\<^verbatim>\<open>id\<close>, \<^verbatim>\<open>x\<close>, \<^verbatim>\<open>y\<close>,
  \<^verbatim>\<open>name\<close>). Python does not enforce the annotations \<^verbatim>\<open>name: str\<close> and \<^verbatim>\<open>id: str\<close>,
  and app.py stores whatever value the input carries there, so both are JSON values.
\<close>

record Location =
  loc_id :: int
  loc_name :: json
  loc_x :: real
  loc_y :: real
  zone :: ZoneType
  cost_factor :: real
  allowed_building_types :: "BuildingType list"

record BuildingPlacement =
  bp_id :: int
  building_type :: BuildingType
  location :: "Location option"

record HardSoftScore =
  hard_score :: int
  soft_score :: real

record CityPlanSolution =
  sol_id :: json
  location_list :: "Location list"
  building_placement_list :: "BuildingPlacement list"
  score :: "HardSoftScore option"

section \<open>Zone compatibility (constraints.py)\<close>

text \<open>
  \<^verbatim>\<open>is_building_type_allowed_in_zone\<close>: the early return for RESTRICTED, then the six
  guarded returns in the order of the source, then the final \<^verbatim>\<open>return False\<close>.
\<close>

definition is_building_type_allowed_in_zone :: "BuildingType \<Rightarrow> ZoneType \<Rightarrow> bool" where
  "is_building_type_allowed_in_zone bt z =
     (if z = RESTRICTED then False
      else if bt = HOUSE \<and> z \<in> set [RESIDENTIAL, MIXED, COMMERCIAL] then True
      else if bt = OFFICE \<and> z \<in> set [COMMERCIAL, MIXED] then True
      else if bt = SHOP \<and> z \<in> set [COMMERCIAL, MIXED] then True
      else if bt = SCHOOL \<and> z \<in> set [RESIDENTIAL, MIXED] then True
      else if bt = HOSPITAL \<and> z \<in> set [RESIDENTIAL, MIXED] then True
      else if bt = PHARMACY \<and> z \<in> set [RESIDENTIAL, MIXED, COMMERCIAL] then True
      else False)"

text \<open>
  The zone-compatibility table as the specification prints it, row by row. This
  definition follows the specification, not the code; the two are compared below.
\<close>

fun spec_permitted_zones :: "BuildingType \<Rightarrow> ZoneType list" where
  "spec_permitted_zones HOUSE = [RESIDENTIAL, MIXED, COMMERCIAL]"
| "spec_permitted_zones OFFICE = [COMMERCIAL, MIXED]"
| "spec_permitted_zones SHOP = [COMMERCIAL, MIXED]"
| "spec_permitted_zones SCHOOL = [RESIDENTIAL, MIXED]"
| "spec_permitted_zones HOSPITAL = [RESIDENTIAL, MIXED]"
| "spec_permitted_zones PHARMACY = [RESIDENTIAL, MIXED, COMMERCIAL]"

section \<open>The constraints (constraints.py)\<close>

text \<open>
  \<^verbatim>\<open>math.dist\<close> on two points of the plane, and \<^verbatim>\<open>calc_distance\<close>, which reads
  \<^verbatim>\<open>bp.location.x\<close>: on an unassigned placement that read raises AttributeError,
  which is the value \<^const>\<open>None\<close> here.
\<close>

definition math_dist :: "real \<times> real \<Rightarrow> real \<times> real \<Rightarrow> real" where
  "math_dist p q = sqrt ((fst p - fst q)\<^sup>2 + (snd p - snd q)\<^sup>2)"

definition calc_distance :: "BuildingPlacement \<Rightarrow> BuildingPlacement \<Rightarrow> real option" where
  "calc_distance bp1 bp2 =
     (case location bp1 of
        None \<Rightarrow> None
      | Some l1 \<Rightarrow>
          (case location bp2 of
             None \<Rightarrow> None
           | Some l2 \<Rightarrow> Some (math_dist (loc_x l1, loc_y l1) (loc_x l2, loc_y l2))))"

text \<open>
  One evaluated constraint: its name and the penalty it contributes, the shape of
  an entry of the breakdown of app.py.
\<close>

record BreakdownEntry =
  constraintName :: string
  hardPenalty :: int
  softPenalty :: real

text \<open>
  The constraint streams. The stream operators belong to the solver library, not
  to this repository; they are read as the library documents them:
  \<^item> \<^verbatim>\<open>for_each\<close> ranges over the planning entities of the working solution;
  \<^item> \<^verbatim>\<open>for_each_unique_pair\<close> ranges over the pairs of two entities in which the
    second has the higher planning id, so that each unordered pair occurs once;
  \<^item> \<^verbatim>\<open>filter\<close> keeps the matches that satisfy the predicate;
  \<^item> \<^verbatim>\<open>penalize(ONE_HARD)\<close> subtracts one hard point per match, and
    \<^verbatim>\<open>penalize(ONE_SOFT, w)\<close> subtracts the weight \<open>w\<close> of every match from the
    soft level. A weight function that raises makes the evaluation raise.
  The predicates and the weight functions are the lambdas of constraints.py.
\<close>

definition for_each :: "BuildingPlacement list \<Rightarrow> BuildingPlacement list" where
  "for_each ps = ps"

definition for_each_unique_pair ::
  "BuildingPlacement list \<Rightarrow> (BuildingPlacement \<times> BuildingPlacement) list" where
  "for_each_unique_pair ps =
     concat (map (\<lambda>a. map (Pair a) (filter (\<lambda>b. bp_id a < bp_id b) ps)) ps)"

fun total_weight :: "('a \<Rightarrow> real option) \<Rightarrow> 'a list \<Rightarrow> real option" where
  "total_weight w [] = Some 0"
| "total_weight w (m # ms) =
     (case w m of
        None \<Rightarrow> None
      | Some d \<Rightarrow> (case total_weight w ms of None \<Rightarrow> None | Some t \<Rightarrow> Some (d + t)))"

definition penalize_hard :: "string \<Rightarrow> 'a list \<Rightarrow> BreakdownEntry option" where
  "penalize_hard nm matches =
     Some \<lparr>constraintName = nm, hardPenalty = - int (length matches), softPenalty = 0\<rparr>"

definition penalize_soft ::
  "string \<Rightarrow> ('a \<Rightarrow> real option) \<Rightarrow> 'a list \<Rightarrow> BreakdownEntry option" where
  "penalize_soft nm w matches =
     (case total_weight w matches of
        None \<Rightarrow> None
      | Some t \<Rightarrow> Some \<lparr>constraintName = nm, hardPenalty = 0, softPenalty = - t\<rparr>)"

definition build_disallowed_location_constraint ::
  "BuildingPlacement list \<Rightarrow> BreakdownEntry option" where
  "build_disallowed_location_constraint ps =
     penalize_hard ''Building in disallowed location (HARD)''
       (filter (\<lambda>bp. case location bp of
                        None \<Rightarrow> False
                      | Some l \<Rightarrow> building_type bp \<notin> set (allowed_building_types l))
          (for_each ps))"

definition build_house_school_distance_constraint ::
  "BuildingPlacement list \<Rightarrow> BreakdownEntry option" where
  "build_house_school_distance_constraint ps =
     penalize_soft ''Distance between HOUSE and SCHOOL (SOFT)''
       (\<lambda>(bp1, bp2). calc_distance bp1 bp2)
       (filter (\<lambda>(bp1, bp2).
                  ((building_type bp1 = HOUSE \<and> building_type bp2 = SCHOOL) \<or>
                   (building_type bp1 = SCHOOL \<and> building_type bp2 = HOUSE))
                  \<and> location bp1 \<noteq> None \<and> location bp2 \<noteq> None)
          (for_each_unique_pair ps))"

definition build_house_office_distance_constraint ::
  "BuildingPlacement list \<Rightarrow> BreakdownEntry option" where
  "build_house_office_distance_constraint ps =
     penalize_soft ''Distance between HOUSE and OFFICE (SOFT)''
       (\<lambda>(bp1, bp2). calc_distance bp1 bp2)
       (filter (\<lambda>(bp1, bp2).
                  ((building_type bp1 = HOUSE \<and> building_type bp2 = OFFICE) \<or>
                   (building_type bp1 = OFFICE \<and> building_type bp2 = HOUSE))
                  \<and> location bp1 \<noteq> None \<and> location bp2 \<noteq> None)
          (for_each_unique_pair ps))"

definition build_location_uniqueness_constraint ::
  "BuildingPlacement list \<Rightarrow> BreakdownEntry option" where
  "build_location_uniqueness_constraint ps =
     penalize_hard ''Location uniqueness (HARD)''
       (filter (\<lambda>(bp1, bp2). location bp1 \<noteq> None \<and> location bp1 = location bp2)
          (for_each_unique_pair ps))"

definition build_zoning_mismatch_constraint ::
  "BuildingPlacement list \<Rightarrow> BreakdownEntry option" where
  "build_zoning_mismatch_constraint ps =
     penalize_hard ''Zoning mismatch (HARD)''
       (filter (\<lambda>bp. case location bp of
                        None \<Rightarrow> False
                      | Some l \<Rightarrow> \<not> is_building_type_allowed_in_zone (building_type bp) (zone l))
          (for_each ps))"

definition build_cost_constraint :: "BuildingPlacement list \<Rightarrow> BreakdownEntry option" where
  "build_cost_constraint ps =
     penalize_soft ''Building cost minimization (SOFT)''
       (\<lambda>bp. map_option cost_factor (location bp))
       (filter (\<lambda>bp. location bp \<noteq> None) (for_each ps))"

text \<open>\<^verbatim>\<open>define_constraints\<close>: the six constraints in the order of the source.\<close>

definition define_constraints :: "BuildingPlacement list \<Rightarrow> BreakdownEntry option list" where
  "define_constraints ps =
     [build_disallowed_location_constraint ps,
      build_house_school_distance_constraint ps,
      build_house_office_distance_constraint ps,
      build_zoning_mismatch_constraint ps,
      build_location_uniqueness_constraint ps,
      build_cost_constraint ps]"

section \<open>The breakdown of the API layer (app.py)\<close>

text \<open>
  The loops of \<^verbatim>\<open>get_score_breakdown\<close>. A counting loop adds one to its counter for
  every element that passes the test; a summing loop adds a weight to its sum, and
  raises when the weight does (the value \<^const>\<open>None\<close>). The nested loops
  \<^verbatim>\<open>for i in range(n): for j in range(i+1, n)\<close> visit the index pairs of
  \<open>index_pairs n\<close>, in that order.
\<close>

fun count_loop :: "('a \<Rightarrow> bool) \<Rightarrow> 'a list \<Rightarrow> nat \<Rightarrow> nat" where
  "count_loop c [] n = n"
| "count_loop c (a # as) n = (if c a then count_loop c as (n + 1) else count_loop c as n)"

fun sum_loop :: "('a \<Rightarrow> bool) \<Rightarrow> ('a \<Rightarrow> real option) \<Rightarrow> 'a list \<Rightarrow> real \<Rightarrow> real option" where
  "sum_loop c w [] s = Some s"
| "sum_loop c w (a # as) s =
     (if c a then (case w a of None \<Rightarrow> None | Some d \<Rightarrow> sum_loop c w as (s + d))
      else sum_loop c w as s)"

definition index_pairs :: "nat \<Rightarrow> (nat \<times> nat) list" where
  "index_pairs n = concat (map (\<lambda>i. map (Pair i) [i + 1..<n]) [0..<n])"

text \<open>
  \<^verbatim>\<open>get_score_breakdown\<close>. The test \<^verbatim>\<open>if bp.location\<close> is the truth value of a
  dataclass instance or of \<^verbatim>\<open>None\<close>: \<^verbatim>\<open>Location\<close> defines neither \<^verbatim>\<open>__bool__\<close> nor
  \<^verbatim>\<open>__len__\<close>, so every location is true and only \<^verbatim>\<open>None\<close> is false. The indices
  \<open>i\<close> and \<open>j\<close> stay below \<open>n\<close>, the length of the list, so \<^verbatim>\<open>placements[i]\<close> never
  raises.
\<close>

definition get_score_breakdown :: "CityPlanSolution \<Rightarrow> BreakdownEntry list option" where
  "get_score_breakdown solution =
     (let placements = building_placement_list solution;
          disallowed_count =
            count_loop (\<lambda>bp. case location bp of
                                None \<Rightarrow> False
                              | Some l \<Rightarrow> building_type bp \<notin> set (allowed_building_types l))
              placements 0;
          zoning_count =
            count_loop (\<lambda>bp. case location bp of
                                None \<Rightarrow> False
                              | Some l \<Rightarrow>
                                  \<not> is_building_type_allowed_in_zone (building_type bp) (zone l))
              placements 0;
          n = length placements;
          uniq_count =
            count_loop (\<lambda>(i, j). let bp1 = placements ! i; bp2 = placements ! j in
                          location bp1 \<noteq> None \<and> location bp2 \<noteq> None
                          \<and> location bp1 = location bp2)
              (index_pairs n) 0
      in
      case sum_loop (\<lambda>(i, j). let bp1 = placements ! i; bp2 = placements ! j in
                       (location bp1 \<noteq> None \<and> location bp2 \<noteq> None)
                       \<and> ((building_type bp1 = HOUSE \<and> building_type bp2 = SCHOOL) \<or>
                          (building_type bp1 = SCHOOL \<and> building_type bp2 = HOUSE)))
             (\<lambda>(i, j). calc_distance (placements ! i) (placements ! j))
             (index_pairs n) 0 of
        None \<Rightarrow> None
      | Some hs_sum \<Rightarrow>
      case sum_loop (\<lambda>(i, j). let bp1 = placements ! i; bp2 = placements ! j in
                       (location bp1 \<noteq> None \<and> location bp2 \<noteq> None)
                       \<and> ((building_type bp1 = HOUSE \<and> building_type bp2 = OFFICE) \<or>
                          (building_type bp1 = OFFICE \<and> building_type bp2 = HOUSE)))
             (\<lambda>(i, j). calc_distance (placements ! i) (placements ! j))
             (index_pairs n) 0 of
        None \<Rightarrow> None
      | Some ho_sum \<Rightarrow>
      case sum_loop (\<lambda>bp. location bp \<noteq> None)
             (\<lambda>bp. map_option cost_factor (location bp))
             placements 0 of
        None \<Rightarrow> None
      | Some cost_sum \<Rightarrow>
          Some
            [\<lparr>constraintName = ''Building in disallowed location (HARD)'',
              hardPenalty = - int disallowed_count, softPenalty = 0\<rparr>,
             \<lparr>constraintName = ''Zoning mismatch (HARD)'',
              hardPenalty = - int zoning_count, softPenalty = 0\<rparr>,
             \<lparr>constraintName = ''Location uniqueness (HARD)'',
              hardPenalty = - int uniq_count, softPenalty = 0\<rparr>,
             \<lparr>constraintName = ''Distance between HOUSE and SCHOOL (SOFT)'',
              hardPenalty = 0, softPenalty = - hs_sum\<rparr>,
             \<lparr>constraintName = ''Distance between HOUSE and OFFICE (SOFT)'',
              hardPenalty = 0, softPenalty = - ho_sum\<rparr>,
             \<lparr>constraintName = ''Building cost minimization (SOFT)'',
              hardPenalty = 0, softPenalty = - cost_sum\<rparr>])"

section \<open>Verified properties\<close>

text \<open>
  C1. For every building type and every zone, \<^const>\<open>is_building_type_allowed_in_zone\<close>
  answers true exactly when the table of the specification lists the zone in the
  row of the building type. In particular the answer is false for every building
  type in a RESTRICTED zone and in an INDUSTRIAL zone, which no row lists.
\<close>

theorem is_building_type_allowed_in_zone_table:
  "is_building_type_allowed_in_zone bt z = (z \<in> set (spec_permitted_zones bt))
   \<and> is_building_type_allowed_in_zone bt RESTRICTED = False
   \<and> is_building_type_allowed_in_zone bt INDUSTRIAL = False"
  by (cases bt; cases z; simp add: is_building_type_allowed_in_zone_def)

end
